theory Spec2Isabelle
  imports Main "HOL-Library.AList"
begin

section \<open>The scaffolder workflow runner (NunjucksWorkflowRunner.ts)\<close>

text \<open>
  The development embeds the two methods of \<^verbatim>\<open>NunjucksWorkflowRunner\<close> that carry the
  behaviour of the runner: \<^verbatim>\<open>render\<close>, the deep template substitution over a JSON value,
  and \<^verbatim>\<open>execute\<close>, the step loop with its tracking, dry-run and clean-up.

  Everything the runner calls but does not define is a field of a record that the
  functions take as an argument: the template engine (nunjucks behind
  \<^verbatim>\<open>SecureTemplater\<close>), \<^verbatim>\<open>JSON.parse\<close>, the action registry, the schema validator and
  the example generator. Effects (log lines, metrics, directory operations, registry
  look-ups, renderings, handler invocations) are recorded as a list of events in the
  order the code performs them.
\<close>

subsection \<open>JSON values\<close>

text \<open>
  \<^verbatim>\<open>JsonValue\<close>. A number of the model is an integer; the numbers of JavaScript with a
  fraction are outside the model, and so is rounding beyond \<open>2\<^sup>5\<^sup>3\<close>. An array
  element is optional: \<open>None\<close> is a hole, which is what \<^verbatim>\<open>JSON.parse\<close> leaves behind when
  its reviver returns \<^verbatim>\<open>undefined\<close> for an element. An object is its list of properties in
  insertion order. A value of type \<open>json option\<close> is a JavaScript value that may be
  \<^verbatim>\<open>undefined\<close> (\<open>None\<close>).
\<close>

datatype json =
    JNull
  | JBool bool
  | JNum int
  | JStr string
  | JArr "json option list"
  | JObj "(string \<times> json) list"

datatype error =
    InputError string
  | NotFoundError string
  | SyntaxError string
  | TemplateError string
  | ActionError string

text \<open>JavaScript's own truthiness (\<^verbatim>\<open>if (v)\<close>, \<^verbatim>\<open>v && e\<close>) on a defined JSON value.\<close>

fun js_truthy :: "json \<Rightarrow> bool" where
  "js_truthy JNull = False"
| "js_truthy (JBool b) = b"
| "js_truthy (JNum n) = (n \<noteq> 0)"
| "js_truthy (JStr s) = (s \<noteq> [])"
| "js_truthy (JArr xs) = True"
| "js_truthy (JObj kvs) = True"

text \<open>
  Modelled from the spec: \<^verbatim>\<open>isTruthy\<close> is imported from \<^verbatim>\<open>./helper\<close>, which is not among
  the sources. The spec gives the rule: the empty string, \<^verbatim>\<open>"false"\<close>, \<^verbatim>\<open>false\<close>, an
  absent or undefined value, numeric zero and an empty collection coerce to false,
  everything else to true.
\<close>

fun isTruthy :: "json option \<Rightarrow> bool" where
  "isTruthy None = False"
| "isTruthy (Some JNull) = False"
| "isTruthy (Some (JBool b)) = b"
| "isTruthy (Some (JNum n)) = (n \<noteq> 0)"
| "isTruthy (Some (JStr s)) = (s \<noteq> [] \<and> s \<noteq> ''false'')"
| "isTruthy (Some (JArr xs)) = (xs \<noteq> [])"
| "isTruthy (Some (JObj kvs)) = (kvs \<noteq> [])"

subsection \<open>The template context and the template engine\<close>

text \<open>
  \<^verbatim>\<open>TemplateContext\<close>: \<open>ctx_steps\<close> maps a step id to the value stored under
  \<^verbatim>\<open>steps[id].output\<close>; \<open>ctx_secrets\<close> and \<open>ctx_user\<close> are the optional fields.
\<close>

record template_context =
  ctx_parameters :: json
  ctx_steps :: "(string \<times> json) list"
  ctx_secrets :: "(string \<times> string) list option"
  ctx_user :: "json option"

text \<open>
  What \<^verbatim>\<open>isSingleTemplateString\<close> reads of a nunjucks syntax node: whether it is an
  instance of \<^verbatim>\<open>nodes.TemplateData\<close>, and its \<^verbatim>\<open>children\<close> property when it has one.
\<close>

datatype nj_node = Node (is_TemplateData: bool) (children: "nj_node list option")

text \<open>
  The engine: \<open>nj_parse\<close> is \<^verbatim>\<open>nunjucks.parser.parse\<close> with the \<^verbatim>\<open>${{ }}\<close> delimiters and
  returns the children of the root node, \<open>renderTemplate\<close> is the
  \<^verbatim>\<open>SecureTemplateRenderer\<close>, \<open>JSON_parse\<close> is \<^verbatim>\<open>JSON.parse\<close> without a reviver. Each of
  them either throws (\<open>Inl\<close>) or returns (\<open>Inr\<close>).
\<close>

record engine =
  nj_parse :: "string \<Rightarrow> error + nj_node list"
  renderTemplate :: "string \<Rightarrow> template_context \<Rightarrow> error + string"
  JSON_parse :: "string \<Rightarrow> error + json"

subsection \<open>isSingleTemplateString\<close>

text \<open>
  \<^verbatim>\<open>parsed.children.length === 1 &&
  !(parsed.children[0]?.children?.[0] instanceof nodes.TemplateData)\<close>
\<close>

fun first_grandchild_is_data :: "nj_node list \<Rightarrow> bool" where
  "first_grandchild_is_data [] = False"
| "first_grandchild_is_data (c # cs) =
     (case children c of
        None \<Rightarrow> False
      | Some [] \<Rightarrow> False
      | Some (g # gs) \<Rightarrow> is_TemplateData g)"

definition isSingleTemplateString :: "engine \<Rightarrow> string \<Rightarrow> error + bool" where
  "isSingleTemplateString E input =
     (case nj_parse E input of
        Inl e \<Rightarrow> Inl e
      | Inr parsed \<Rightarrow> Inr (length parsed = 1 \<and> \<not> first_grandchild_is_data parsed))"

subsection \<open>The rewriting of a whole expression\<close>

text \<open>
  \<^verbatim>\<open>value.replace(/\${{(.+)}}/g, '${{ ( $1 ) | dump }}')\<close>. The dot of the regular
  expression matches any character but a line terminator; \<open>.+\<close> is greedy, so at a
  \<^verbatim>\<open>${{\<close> the match runs to the last \<^verbatim>\<open>}}\<close> before the end of the line that leaves the group
  at least one character. The search resumes after each match. A character of the
  model is a code unit below 256, so the two line terminators beyond that (U+2028 and
  U+2029) do not occur.
\<close>

definition is_line_terminator :: "char \<Rightarrow> bool" where
  "is_line_terminator c = (c = CHR 0x0A \<or> c = CHR 0x0D)"

text \<open>The largest \<open>k\<close> such that \<^verbatim>\<open>}}\<close> occurs at offset \<open>k\<close> of the string.\<close>

fun find_last_close :: "string \<Rightarrow> nat option" where
  "find_last_close [] = None"
| "find_last_close (c # cs) =
     (case find_last_close cs of
        Some k \<Rightarrow> Some (Suc k)
      | None \<Rightarrow> if c = CHR ''}'' \<and> take 1 cs = ''}'' then Some 0 else None)"

function wrap_dump :: "string \<Rightarrow> string" where
  "wrap_dump [] = []"
| "wrap_dump (c # cs) =
     (if take 3 (c # cs) = ''${{'' then
        (case takeWhile (\<lambda>x. \<not> is_line_terminator x) (drop 2 cs) of
           [] \<Rightarrow> c # wrap_dump cs
         | d # ds \<Rightarrow>
            (case find_last_close ds of
               None \<Rightarrow> c # wrap_dump cs
             | Some k \<Rightarrow>
                 ''${{ ( '' @ (d # take k ds) @ '' ) | dump }}'' @ wrap_dump (drop (k + 5) cs)))
      else c # wrap_dump cs)"
  by pat_completeness auto
termination
  by (relation "measure length") auto

subsection \<open>render\<close>

text \<open>
  The reviver on a string. The inner \<^verbatim>\<open>try\<close> covers the classification, the rewriting,
  the rendering of the rewritten template and the re-parse; any throw there is logged
  and falls through to the plain rendering. A throw of the plain rendering is caught
  by the outer \<^verbatim>\<open>try\<close>, which returns the string as it was. The log line written by
  the inner \<^verbatim>\<open>catch\<close> is not recorded.
\<close>

definition render_plain :: "engine \<Rightarrow> template_context \<Rightarrow> string \<Rightarrow> json option" where
  "render_plain E ctx v =
     (case renderTemplate E v ctx of
        Inl e \<Rightarrow> Some (JStr v)
      | Inr templated \<Rightarrow> if templated = [] then None else Some (JStr templated))"

definition render_string :: "engine \<Rightarrow> template_context \<Rightarrow> string \<Rightarrow> json option" where
  "render_string E ctx v =
     (case isSingleTemplateString E v of
        Inl e \<Rightarrow> render_plain E ctx v
      | Inr False \<Rightarrow> render_plain E ctx v
      | Inr True \<Rightarrow>
          (case renderTemplate E (wrap_dump v) ctx of
             Inl e \<Rightarrow> render_plain E ctx v
           | Inr templated \<Rightarrow>
               if templated = [] then None
               else (case JSON_parse E templated of
                       Inl e \<Rightarrow> render_plain E ctx v
                     | Inr j \<Rightarrow> Some j)))"

text \<open>
  \<^verbatim>\<open>JSON.parse(text, reviver)\<close> on the tree: children first, a property whose reviver
  result is \<^verbatim>\<open>undefined\<close> is deleted (from an array this leaves a hole), then the reviver
  is applied to the node itself. The reviver of \<^verbatim>\<open>render\<close> returns every value that is
  not a string unchanged.
\<close>

fun keep_defined :: "(string \<times> json option) list \<Rightarrow> (string \<times> json) list" where
  "keep_defined [] = []"
| "keep_defined ((k, None) # kvs) = keep_defined kvs"
| "keep_defined ((k, Some v) # kvs) = (k, v) # keep_defined kvs"

fun internalize :: "(string \<Rightarrow> json option) \<Rightarrow> json \<Rightarrow> json option" where
  "internalize r (JStr s) = r s"
| "internalize r (JArr xs) =
     Some (JArr (map (\<lambda>x. case x of None \<Rightarrow> Some JNull | Some v \<Rightarrow> internalize r v) xs))"
| "internalize r (JObj kvs) =
     Some (JObj (keep_defined (map (\<lambda>(k, v). (k, internalize r v)) kvs)))"
| "internalize r v = Some v"

text \<open>
  \<^verbatim>\<open>render(input, context, renderTemplate)\<close> for an input that is a JSON value.
  \<^verbatim>\<open>JSON.stringify\<close> followed by \<^verbatim>\<open>JSON.parse\<close> copies the value and turns a hole of an
  array into \<^verbatim>\<open>null\<close>, which is the \<open>None\<close> case of \<open>internalize\<close>.
\<close>

definition render :: "engine \<Rightarrow> json \<Rightarrow> template_context \<Rightarrow> json option" where
  "render E input ctx = internalize (render_string E ctx) input"

subsection \<open>Tasks, steps, actions\<close>

text \<open>
  \<^verbatim>\<open>TaskStep\<close>: the input and the condition are optional, and the condition is a JSON
  value (a template string, or a boolean written in the template).
\<close>

record step =
  step_id :: string
  step_name :: string
  step_action :: string
  step_input :: "json option"
  step_if :: "json option"

text \<open>
  \<^verbatim>\<open>TaskContext\<close>, with the fields of \<^verbatim>\<open>task.spec\<close> that \<^verbatim>\<open>execute\<close> reads. An absent
  \<^verbatim>\<open>isDryRun\<close> is \<open>False\<close>. \<open>workspaceName\<close> is what \<^verbatim>\<open>getWorkspaceName()\<close> returns.
\<close>

record task =
  apiVersion :: string
  spec_steps :: "step list"
  spec_parameters :: json
  spec_output :: json
  spec_user :: "json option"
  spec_templateInfo :: "json option"
  task_secrets :: "(string \<times> string) list option"
  isDryRun :: bool
  workspaceName :: string

text \<open>
  What the runner passes to an action handler (the loggers are left out), and what the
  handler did when it returned: the error it threw, if any, its calls of
  \<^verbatim>\<open>output(name, value)\<close> in order, and the suffixes \<^verbatim>\<open>fs.mkdtemp\<close> chose for its calls of
  \<^verbatim>\<open>createTemporaryDirectory()\<close>.
\<close>

record handler_args =
  ha_input :: json
  ha_secrets :: "(string \<times> string) list"
  ha_workspacePath :: string
  ha_templateInfo :: "json option"

record handler_result =
  hr_thrown :: "error option"
  hr_output :: "(string \<times> json) list"
  hr_tmp :: "string list"

text \<open>\<^verbatim>\<open>TemplateAction\<close>. An absent \<^verbatim>\<open>supportsDryRun\<close> is \<open>False\<close>.\<close>

record action =
  action_id :: string
  supportsDryRun :: bool
  schema_input :: "json option"
  schema_output :: "json option"
  handler :: "handler_args \<Rightarrow> handler_result"

text \<open>
  The options of the runner and the functions it imports. Modelled from the spec:
  \<open>actionRegistry\<close> is \<^verbatim>\<open>TemplateActionRegistry.get\<close>, whose code is not among the sources;
  resolving an identifier that is not registered fails, which is \<open>None\<close> here.
  \<open>validateJsonSchema\<close> returns the list of validation errors (the result is valid when
  there is none); \<open>generateExampleOutput\<close> is the generator of \<^verbatim>\<open>./helper\<close>.
\<close>

record runner =
  workingDirectory :: string
  actionRegistry :: "string \<Rightarrow> action option"
  templater :: engine
  validateJsonSchema :: "json \<Rightarrow> json \<Rightarrow> string list"
  generateExampleOutput :: "json \<Rightarrow> json"

subsection \<open>Events\<close>

datatype render_site = IfSite | InputSite | OutputSite

text \<open>
  One event per effect of \<^verbatim>\<open>execute\<close>. The tracker's operations (a log line through
  \<^verbatim>\<open>task.emitLog\<close> and a counter or timer) are the events \<open>TaskStarted\<close>, \<open>StepStarted\<close>,
  \<open>StepSkippedFalsy\<close>, \<open>StepSkippedDryRun\<close>, \<open>StepSucceeded\<close>, \<open>TaskFailed\<close>, \<open>StepFailed\<close> and
  \<open>TaskSucceeded\<close>. \<open>Rendered\<close> records a call of \<^verbatim>\<open>render\<close> with its input and context.
\<close>

datatype event =
    TaskStarted nat
  | EnsureDir string
  | StepStarted string
  | Rendered render_site json template_context
  | StepSkippedFalsy string
  | RegistryGet string
  | StepSkippedDryRun string string
  | Validated string json
  | HandlerInvoked string handler_args
  | TempDirCreated string
  | TempDirRemoved string
  | StepSucceeded string
  | TaskFailed string error
  | StepFailed string
  | TaskSucceeded
  | Removed string

text \<open>The directories that exist after a list of events, from those that existed before.\<close>

definition remove_dir :: "string \<Rightarrow> string set \<Rightarrow> string set" where
  "remove_dir p D = {q \<in> D. q \<noteq> p \<and> take (Suc (length p)) q \<noteq> p @ ''/''}"

fun apply_fs :: "string set \<Rightarrow> event \<Rightarrow> string set" where
  "apply_fs D (EnsureDir p) = insert p D"
| "apply_fs D (TempDirCreated p) = insert p D"
| "apply_fs D (TempDirRemoved p) = remove_dir p D"
| "apply_fs D (Removed p) = remove_dir p D"
| "apply_fs D e = D"

definition dirs_after :: "event list \<Rightarrow> string set \<Rightarrow> string set" where
  "dirs_after evs D = foldl apply_fs D evs"

subsection \<open>execute\<close>

text \<open>\<^verbatim>\<open>task.secrets ?? {}\<close>\<close>

definition secrets_or_empty :: "task \<Rightarrow> (string \<times> string) list" where
  "secrets_or_empty T = (case task_secrets T of None \<Rightarrow> [] | Some s \<Rightarrow> s)"

text \<open>
  Lines 218 to 228: the condition is looked at only when \<^verbatim>\<open>step.if\<close> is truthy for
  JavaScript. The result is whether the step goes on, and the events.
\<close>

definition check_if :: "runner \<Rightarrow> template_context \<Rightarrow> step \<Rightarrow> bool \<times> event list" where
  "check_if R ctx s =
     (case step_if s of
        None \<Rightarrow> (True, [])
      | Some c \<Rightarrow>
          if js_truthy c
          then (isTruthy (render (templater R) c ctx), [Rendered IfSite c ctx])
          else (True, []))"

text \<open>\<^verbatim>\<open>v ?? {}\<close>\<close>

fun or_empty_object :: "json option \<Rightarrow> json" where
  "or_empty_object None = JObj []"
| "or_empty_object (Some JNull) = JObj []"
| "or_empty_object (Some v) = v"

text \<open>
  Lines 249 to 256:
  \<^verbatim>\<open>(step.input && this.render(step.input, {...context, secrets: task.secrets ?? {}},
  renderTemplate)) ?? {}\<close>
\<close>

definition input_context :: "task \<Rightarrow> template_context \<Rightarrow> template_context" where
  "input_context T ctx = ctx\<lparr>ctx_secrets := Some (secrets_or_empty T)\<rparr>"

definition render_input :: "runner \<Rightarrow> task \<Rightarrow> template_context \<Rightarrow> step \<Rightarrow> json \<times> event list" where
  "render_input R T ctx s =
     (case step_input s of
        None \<Rightarrow> (JObj [], [])
      | Some i \<Rightarrow>
          if js_truthy i
          then (or_empty_object (render (templater R) i (input_context T ctx)),
                [Rendered InputSite i (input_context T ctx)])
          else (or_empty_object (Some i), []))"

text \<open>\<^verbatim>\<open>context.steps[step.id] = { output: v }\<close>\<close>

definition set_step_output :: "string \<Rightarrow> json \<Rightarrow> template_context \<Rightarrow> template_context" where
  "set_step_output sid v ctx = ctx\<lparr>ctx_steps := AList.update sid v (ctx_steps ctx)\<rparr>"

text \<open>
  The object the \<^verbatim>\<open>output\<close> callback has built when the handler returns: a later call
  with the same name replaces the value. The properties are in the order of their first
  call; JavaScript lists those whose name is an array index first, which no look-up by
  name sees.
\<close>

definition collect_output :: "(string \<times> json) list \<Rightarrow> json" where
  "collect_output calls = JObj (foldl (\<lambda>acc (n, v). AList.update n v acc) [] calls)"

definition join_errors :: "string list \<Rightarrow> string" where
  "join_errors errs = concat (case errs of [] \<Rightarrow> [] | e # es \<Rightarrow> e # map (\<lambda>x. '', '' @ x) es)"

definition tmp_dir :: "string \<Rightarrow> step \<Rightarrow> string \<Rightarrow> string" where
  "tmp_dir ws s suffix = ws @ ''_step-'' @ step_id s @ ''-'' @ suffix"

text \<open>Lines 248 to 300: rendering of the input, validation, invocation, recording.\<close>

definition invoke_action ::
  "runner \<Rightarrow> task \<Rightarrow> string \<Rightarrow> template_context \<Rightarrow> step \<Rightarrow> action
     \<Rightarrow> (error + template_context) \<times> event list" where
  "invoke_action R T ws ctx s a =
     (case render_input R T ctx s of (input, evs_in) \<Rightarrow>
        (case (case schema_input a of
                 None \<Rightarrow> ([], [])
               | Some sch \<Rightarrow> (validateJsonSchema R input sch, [Validated (action_id a) input])) of
           (errs, evs_val) \<Rightarrow>
             if errs \<noteq> [] then
               (Inl (InputError (''Invalid input passed to action '' @ action_id a @ '', ''
                                  @ join_errors errs)),
                evs_in @ evs_val)
             else
               (let args = \<lparr>ha_input = input, ha_secrets = secrets_or_empty T,
                            ha_workspacePath = ws, ha_templateInfo = spec_templateInfo T\<rparr>;
                    res = handler a args;
                    tmps = map (tmp_dir ws s) (hr_tmp res);
                    evs_run = evs_in @ evs_val @ [HandlerInvoked (step_id s) args]
                                @ map TempDirCreated tmps
                in case hr_thrown res of
                     Some e \<Rightarrow> (Inl e, evs_run)
                   | None \<Rightarrow>
                       (Inr (set_step_output (step_id s) (collect_output (hr_output res)) ctx),
                        evs_run @ map TempDirRemoved tmps @ [StepSucceeded (step_id s)]))))"

text \<open>Lines 233 to 246: the output stored for a step that a dry run skips.\<close>

definition dry_run_output :: "runner \<Rightarrow> action \<Rightarrow> json" where
  "dry_run_output R a =
     (case schema_output a of
        Some outputSchema \<Rightarrow> generateExampleOutput R outputSchema
      | None \<Rightarrow> JObj [])"

text \<open>The body of the \<^verbatim>\<open>try\<close> of one iteration (lines 218 to 300).\<close>

definition step_body ::
  "runner \<Rightarrow> task \<Rightarrow> string \<Rightarrow> template_context \<Rightarrow> step
     \<Rightarrow> (error + template_context) \<times> event list" where
  "step_body R T ws ctx s =
     (case check_if R ctx s of
        (False, evs) \<Rightarrow> (Inr ctx, evs @ [StepSkippedFalsy (step_id s)])
      | (True, evs) \<Rightarrow>
          (case actionRegistry R (step_action s) of
             None \<Rightarrow>
               (Inl (NotFoundError (step_action s)), evs @ [RegistryGet (step_action s)])
           | Some a \<Rightarrow>
               if isDryRun T \<and> \<not> supportsDryRun a then
                 (Inr (set_step_output (step_id s) (dry_run_output R a) ctx),
                  evs @ [RegistryGet (step_action s),
                         StepSkippedDryRun (step_id s) (action_id a)])
               else
                 (case invoke_action R T ws ctx s a of
                    (r, evs') \<Rightarrow> (r, evs @ [RegistryGet (step_action s)] @ evs'))))"

text \<open>
  One iteration: \<^verbatim>\<open>stepStart\<close>, the body, and the \<^verbatim>\<open>catch\<close> that records the failure for
  the task and the step and throws the error again.
\<close>

definition run_step ::
  "runner \<Rightarrow> task \<Rightarrow> string \<Rightarrow> template_context \<Rightarrow> step
     \<Rightarrow> (error + template_context) \<times> event list" where
  "run_step R T ws ctx s =
     (case step_body R T ws ctx s of
        (Inl err, evs) \<Rightarrow>
          (Inl err, StepStarted (step_id s) # evs
                      @ [TaskFailed (step_id s) err, StepFailed (step_id s)])
      | (Inr ctx', evs) \<Rightarrow> (Inr ctx', StepStarted (step_id s) # evs))"

text \<open>The \<^verbatim>\<open>for\<close> loop over \<^verbatim>\<open>task.spec.steps\<close>: a thrown error leaves the loop.\<close>

fun run_steps ::
  "runner \<Rightarrow> task \<Rightarrow> string \<Rightarrow> template_context \<Rightarrow> step list
     \<Rightarrow> (error + template_context) \<times> event list" where
  "run_steps R T ws ctx [] = (Inr ctx, [])"
| "run_steps R T ws ctx (s # ss) =
     (case run_step R T ws ctx s of
        (Inl err, evs) \<Rightarrow> (Inl err, evs)
      | (Inr ctx', evs) \<Rightarrow>
          (case run_steps R T ws ctx' ss of (r, evs') \<Rightarrow> (r, evs @ evs')))"

text \<open>
  \<^verbatim>\<open>path.join(this.options.workingDirectory, await task.getWorkspaceName())\<close>, for a
  directory and a name that need no normalisation: the two are joined by a separator.
  The result of \<^verbatim>\<open>path.join\<close> is never empty, which is what line 313 tests.
\<close>

definition workspacePath :: "runner \<Rightarrow> task \<Rightarrow> string" where
  "workspacePath R T = workingDirectory R @ ''/'' @ workspaceName T"

definition initial_context :: "task \<Rightarrow> template_context" where
  "initial_context T =
     \<lparr>ctx_parameters = spec_parameters T, ctx_steps = [], ctx_secrets = None,
      ctx_user = spec_user T\<rparr>"

text \<open>
  \<^verbatim>\<open>execute(task)\<close>: the result is the thrown error or the \<^verbatim>\<open>output\<close> of the response,
  with the events in order. The \<^verbatim>\<open>finally\<close> removes the workspace on both ways out of the
  \<^verbatim>\<open>try\<close>; the version check is before the \<^verbatim>\<open>try\<close>.
\<close>

definition execute :: "runner \<Rightarrow> task \<Rightarrow> (error + json option) \<times> event list" where
  "execute R T =
     (if apiVersion T \<noteq> ''scaffolder.backstage.io/v1beta3'' then
        (Inl (InputError ''Wrong template version executed with the workflow engine''), [])
      else
        (let ws = workspacePath R T in
         case run_steps R T ws (initial_context T) (spec_steps T) of
           (Inl err, evs) \<Rightarrow>
             (Inl err, [TaskStarted (length (spec_steps T)), EnsureDir ws] @ evs @ [Removed ws])
         | (Inr ctx, evs) \<Rightarrow>
             (Inr (render (templater R) (spec_output T) ctx),
              [TaskStarted (length (spec_steps T)), EnsureDir ws] @ evs
                @ [Rendered OutputSite (spec_output T) ctx, TaskSucceeded, Removed ws])))"

subsection \<open>JSON text\<close>

text \<open>
  \<^verbatim>\<open>JSON.stringify\<close> (without indentation) and \<^verbatim>\<open>JSON.parse\<close> on the values above. A
  character of the model is a code unit below 256, and a number is an integer, which
  JavaScript holds exactly up to \<open>2\<^sup>5\<^sup>3 - 1\<close> in magnitude. \<open>json_parse\<close> therefore has
  three answers: the value, a syntax error, or no answer (\<open>None\<close>) for a text that the
  model cannot read as JavaScript does: a numeral with a fraction or an exponent or
  beyond that magnitude, a \<^verbatim>\<open>\u\<close> escape of a code unit above 255, or a text deeper than
  the bound on the descent, which \<open>json_parse\<close> sets beyond the length of the text.
\<close>

definition max_safe_integer :: int where
  "max_safe_integer = 9007199254740991"


definition digit_char :: "nat \<Rightarrow> char" where
  "digit_char d = char_of (48 + d)"

fun nat_digits :: "nat \<Rightarrow> string" where
  "nat_digits n = (if n < 10 then [digit_char n] else nat_digits (n div 10) @ [digit_char (n mod 10)])"

declare nat_digits.simps [simp del]

definition int_text :: "int \<Rightarrow> string" where
  "int_text i = (if i < 0 then CHR ''-'' # nat_digits (nat (- i)) else nat_digits (nat i))"

definition hex_char :: "nat \<Rightarrow> char" where
  "hex_char d = (if d < 10 then char_of (48 + d) else char_of (87 + d))"

definition escape_char :: "char \<Rightarrow> string" where
  "escape_char c =
     (if c = CHR 0x22 then [CHR 0x5C, CHR 0x22]
      else if c = CHR 0x5C then [CHR 0x5C, CHR 0x5C]
      else if c = CHR 0x08 then [CHR 0x5C, CHR ''b'']
      else if c = CHR 0x0C then [CHR 0x5C, CHR ''f'']
      else if c = CHR 0x0A then [CHR 0x5C, CHR ''n'']
      else if c = CHR 0x0D then [CHR 0x5C, CHR ''r'']
      else if c = CHR 0x09 then [CHR 0x5C, CHR ''t'']
      else if of_char c < (32::nat) then
        [CHR 0x5C, CHR ''u'', CHR ''0'', CHR ''0'', hex_char (of_char c div 16), hex_char (of_char c mod 16)]
      else [c])"

definition quote :: "string \<Rightarrow> string" where
  "quote s = CHR 0x22 # concat (map escape_char s) @ [CHR 0x22]"

fun join :: "string \<Rightarrow> string list \<Rightarrow> string" where
  "join sep [] = []"
| "join sep [x] = x"
| "join sep (x # y # ys) = x @ sep @ join sep (y # ys)"

fun json_stringify :: "json \<Rightarrow> string" where
  "json_stringify JNull = ''null''"
| "json_stringify (JBool b) = (if b then ''true'' else ''false'')"
| "json_stringify (JNum n) = int_text n"
| "json_stringify (JStr s) = quote s"
| "json_stringify (JArr xs) =
     ''['' @ join '','' (map (\<lambda>x. case x of None \<Rightarrow> ''null'' | Some v \<Rightarrow> json_stringify v) xs) @ '']''"
| "json_stringify (JObj kvs) =
     ''{'' @ join '','' (map (\<lambda>(k, v). quote k @ '':'' @ json_stringify v) kvs) @ ''}''"

text \<open>
  The result of a parser: what it read and the rest of the text, a text that is not
  JSON, or a text outside the model.
\<close>

datatype 'a parsed = Parsed 'a string | Malformed | Unmodelled

fun and_then :: "'a parsed \<Rightarrow> ('a \<Rightarrow> string \<Rightarrow> 'b parsed) \<Rightarrow> 'b parsed" where
  "and_then (Parsed x r) f = f x r"
| "and_then Malformed f = Malformed"
| "and_then Unmodelled f = Unmodelled"

definition is_ws :: "char \<Rightarrow> bool" where
  "is_ws c = (c = CHR 0x20 \<or> c = CHR 0x09 \<or> c = CHR 0x0A \<or> c = CHR 0x0D)"

definition is_digit :: "char \<Rightarrow> bool" where
  "is_digit c = (48 \<le> (of_char c :: nat) \<and> (of_char c :: nat) \<le> 57)"

fun digits_value :: "nat \<Rightarrow> string \<Rightarrow> nat" where
  "digits_value acc [] = acc"
| "digits_value acc (c # cs) = digits_value (10 * acc + (of_char c - 48)) cs"

definition parse_nat :: "string \<Rightarrow> nat parsed" where
  "parse_nat s =
     (let ds = takeWhile is_digit s; r = dropWhile is_digit s
      in if ds = [] \<or> (length ds > 1 \<and> take 1 ds = ''0'') then Malformed
         else if take 1 r = ''.'' \<or> take 1 r = ''e'' \<or> take 1 r = ''E'' then Unmodelled
         else if int (digits_value 0 ds) > max_safe_integer then Unmodelled
         else Parsed (digits_value 0 ds) r)"

definition parse_number :: "string \<Rightarrow> json parsed" where
  "parse_number s =
     (if take 1 s = ''-''
      then and_then (parse_nat (drop 1 s)) (\<lambda>n r. Parsed (JNum (- int n)) r)
      else and_then (parse_nat s) (\<lambda>n r. Parsed (JNum (int n)) r))"

definition hex_value :: "char \<Rightarrow> nat option" where
  "hex_value c =
     (let n = (of_char c :: nat)
      in if 48 \<le> n \<and> n \<le> 57 then Some (n - 48)
         else if 97 \<le> n \<and> n \<le> 102 then Some (n - 87)
         else if 65 \<le> n \<and> n \<le> 70 then Some (n - 55)
         else None)"

text \<open>
  The character after a backslash and what follows it: the character that is meant and
  the number of characters read, an escape that JSON does not have, or a code unit
  above 255.
\<close>

datatype escape = Escape char nat | BadEscape | WideEscape

definition unescape :: "string \<Rightarrow> escape" where
  "unescape s =
     (case s of
        [] \<Rightarrow> BadEscape
      | e # r \<Rightarrow>
          if e = CHR 0x22 \<or> e = CHR 0x5C \<or> e = CHR ''/'' then Escape e 1
          else if e = CHR ''b'' then Escape (CHR 0x08) 1
          else if e = CHR ''f'' then Escape (CHR 0x0C) 1
          else if e = CHR ''n'' then Escape (CHR 0x0A) 1
          else if e = CHR ''r'' then Escape (CHR 0x0D) 1
          else if e = CHR ''t'' then Escape (CHR 0x09) 1
          else if e = CHR ''u'' then
            (case map hex_value (take 4 r) of
               [Some a, Some b, Some c, Some d] \<Rightarrow>
                 if a = 0 \<and> b = 0 then Escape (char_of (16 * c + d)) 5 else WideEscape
             | _ \<Rightarrow> BadEscape)
          else BadEscape)"

function parse_string_body :: "string \<Rightarrow> string parsed" where
  "parse_string_body [] = Malformed"
| "parse_string_body (c # cs) =
     (if c = CHR 0x22 then Parsed [] cs
      else if c = CHR 0x5C then
        (case unescape cs of
           BadEscape \<Rightarrow> Malformed
         | WideEscape \<Rightarrow> Unmodelled
         | Escape x k \<Rightarrow> and_then (parse_string_body (drop k cs)) (\<lambda>s r. Parsed (x # s) r))
      else if (of_char c :: nat) < 32 then Malformed
      else and_then (parse_string_body cs) (\<lambda>s r. Parsed (c # s) r))"
  by pat_completeness auto
termination
  by (relation "measure length") auto

definition skip_ws :: "string \<Rightarrow> string" where
  "skip_ws s = dropWhile is_ws s"

text \<open>The character that must come next, after white space.\<close>

definition expect :: "char \<Rightarrow> string \<Rightarrow> unit parsed" where
  "expect c s = (case skip_ws s of [] \<Rightarrow> Malformed | d # r \<Rightarrow> if d = c then Parsed () r else Malformed)"

fun parse_value :: "nat \<Rightarrow> string \<Rightarrow> json parsed"
  and parse_elements :: "nat \<Rightarrow> string \<Rightarrow> json option list parsed"
  and parse_members :: "nat \<Rightarrow> string \<Rightarrow> (string \<times> json) list parsed" where
  "parse_value 0 s = Unmodelled"
| "parse_value (Suc n) s =
     (case skip_ws s of
        [] \<Rightarrow> Malformed
      | c # r \<Rightarrow>
          if c = CHR ''n'' then (if take 3 r = ''ull'' then Parsed JNull (drop 3 r) else Malformed)
          else if c = CHR ''t'' then
            (if take 3 r = ''rue'' then Parsed (JBool True) (drop 3 r) else Malformed)
          else if c = CHR ''f'' then
            (if take 4 r = ''alse'' then Parsed (JBool False) (drop 4 r) else Malformed)
          else if c = CHR 0x22 then
            and_then (parse_string_body r) (\<lambda>s r'. Parsed (JStr s) r')
          else if c = CHR ''['' then
            (if take 1 (skip_ws r) = '']'' then Parsed (JArr []) (drop 1 (skip_ws r))
             else and_then (parse_elements n r) (\<lambda>xs r'. Parsed (JArr xs) r'))
          else if c = CHR ''{'' then
            (if take 1 (skip_ws r) = ''}'' then Parsed (JObj []) (drop 1 (skip_ws r))
             else and_then (parse_members n r)
                    (\<lambda>kvs r'. Parsed (JObj (foldl (\<lambda>acc (k, v). AList.update k v acc) [] kvs)) r'))
          else parse_number (c # r))"
| "parse_elements 0 s = Unmodelled"
| "parse_elements (Suc n) s =
     and_then (parse_value n s)
       (\<lambda>v r. case skip_ws r of
                 [] \<Rightarrow> Malformed
               | c # r' \<Rightarrow>
                   if c = CHR '']'' then Parsed [Some v] r'
                   else if c = CHR '','' then
                     and_then (parse_elements n r') (\<lambda>xs r''. Parsed (Some v # xs) r'')
                   else Malformed)"
| "parse_members 0 s = Unmodelled"
| "parse_members (Suc n) s =
     and_then (expect (CHR 0x22) s)
       (\<lambda>u r0. and_then (parse_string_body r0)
          (\<lambda>k r1. and_then (expect (CHR '':'') r1)
             (\<lambda>u r2. and_then (parse_value n r2)
                (\<lambda>v r3. case skip_ws r3 of
                           [] \<Rightarrow> Malformed
                         | c # r4 \<Rightarrow>
                             if c = CHR ''}'' then Parsed [(k, v)] r4
                             else if c = CHR '','' then
                               and_then (parse_members n r4) (\<lambda>kvs r5. Parsed ((k, v) # kvs) r5)
                             else Malformed))))"

definition json_parse :: "string \<Rightarrow> (error + json) option" where
  "json_parse s =
     (case parse_value (Suc (length s)) s of
        Parsed v r \<Rightarrow> if skip_ws r = [] then Some (Inr v) else Some (Inl (SyntaxError s))
      | Malformed \<Rightarrow> Some (Inl (SyntaxError s))
      | Unmodelled \<Rightarrow> None)"


text \<open>
  What may follow a numeral for the parser to stop there, and a bound on the depth
  that the parser needs for the text of a value.
\<close>

definition number_end :: "string \<Rightarrow> bool" where
  "number_end r =
     (case r of [] \<Rightarrow> True
      | c # cs \<Rightarrow> \<not> is_digit c \<and> c \<noteq> CHR ''.'' \<and> c \<noteq> CHR ''e'' \<and> c \<noteq> CHR ''E'')"


subsection \<open>A template engine for a fragment of the expression language\<close>

text \<open>
  Modelled from the spec: the template engine is not among the sources; the spec
  describes it as a sandboxed expression engine with custom delimiters, supplied
  filters and a serialize filter. \<open>mini\<close> is such an engine for the fragment that the
  examples need: literal text, and \<^verbatim>\<open>${{ e }}\<close> where \<open>e\<close> is a name of the context,
  followed by property look-ups \<^verbatim>\<open>.k\<close> and filters \<^verbatim>\<open>| f\<close>, or such an expression in
  parentheses. The only filter is \<^verbatim>\<open>dump\<close>, which is \<^verbatim>\<open>JSON.stringify\<close>. An undefined or
  null result prints as the empty string, any other as JavaScript converts it to a
  string. The context is read as the runner passes it: \<^verbatim>\<open>parameters\<close>,
  \<^verbatim>\<open>steps.<id>.output\<close>, and \<^verbatim>\<open>secrets\<close> and \<^verbatim>\<open>user\<close> when present. Text outside the fragment
  (block tags, comments, other operators) is answered with an error, and so is a JSON
  text for which \<open>json_parse\<close> has no answer.
\<close>

datatype expr = Sym string | Lookup expr string | Group expr | Filter string expr

datatype tok = TIdent string | TDot | TLParen | TRParen | TPipe

datatype segment = Data string | Var string

definition is_ident_char :: "char \<Rightarrow> bool" where
  "is_ident_char c =
     (let n = (of_char c :: nat)
      in (97 \<le> n \<and> n \<le> 122) \<or> (65 \<le> n \<and> n \<le> 90) \<or> (48 \<le> n \<and> n \<le> 57) \<or> n = 95)"

definition flush :: "string \<Rightarrow> tok list" where
  "flush acc = (if acc = [] then [] else [TIdent acc])"

fun lex_expr :: "string \<Rightarrow> string \<Rightarrow> error + tok list" where
  "lex_expr acc [] = Inr (flush acc)"
| "lex_expr acc (c # cs) =
     (if is_ident_char c then lex_expr (acc @ [c]) cs
      else
        (case (if is_ws c then Inr []
               else if c = CHR ''.'' then Inr [TDot]
               else if c = CHR ''('' then Inr [TLParen]
               else if c = CHR '')'' then Inr [TRParen]
               else if c = CHR ''|'' then Inr [TPipe]
               else Inl (TemplateError ''unsupported character'')) of
           Inl e \<Rightarrow> Inl e
         | Inr t \<Rightarrow>
             (case lex_expr [] cs of Inl e \<Rightarrow> Inl e | Inr ts \<Rightarrow> Inr (flush acc @ t @ ts))))"

fun parse_postfix :: "expr \<Rightarrow> tok list \<Rightarrow> expr \<times> tok list" where
  "parse_postfix e (TDot # TIdent k # ts) = parse_postfix (Lookup e k) ts"
| "parse_postfix e ts = (e, ts)"

fun parse_filters :: "expr \<Rightarrow> tok list \<Rightarrow> expr \<times> tok list" where
  "parse_filters e (TPipe # TIdent f # ts) = parse_filters (Filter f e) ts"
| "parse_filters e ts = (e, ts)"

definition parse_suffixes :: "expr \<Rightarrow> tok list \<Rightarrow> expr \<times> tok list" where
  "parse_suffixes e ts = (case parse_postfix e ts of (e', ts') \<Rightarrow> parse_filters e' ts')"

definition is_reserved :: "string \<Rightarrow> bool" where
  "is_reserved x =
     (x \<in> set [''true'', ''false'', ''none'', ''null'', ''not'', ''and'', ''or'', ''in'', ''is'',
                ''if'', ''else''] \<or> is_digit (hd x))"

fun parse_expr :: "nat \<Rightarrow> tok list \<Rightarrow> (expr \<times> tok list) option" where
  "parse_expr 0 ts = None"
| "parse_expr (Suc n) (TIdent x # ts) =
     (if is_reserved x then None else Some (parse_suffixes (Sym x) ts))"
| "parse_expr (Suc n) (TLParen # ts) =
     (case parse_expr n ts of
        Some (e, TRParen # ts') \<Rightarrow> Some (parse_suffixes (Group e) ts')
      | _ \<Rightarrow> None)"
| "parse_expr (Suc n) ts = None"

definition parse_expression :: "string \<Rightarrow> error + expr" where
  "parse_expression s =
     (case lex_expr [] s of
        Inl e \<Rightarrow> Inl e
      | Inr ts \<Rightarrow>
          (case parse_expr (Suc (length ts)) ts of
             Some (e, []) \<Rightarrow> Inr e
           | _ \<Rightarrow> Inl (TemplateError ''parse error'')))"

fun find_close :: "string \<Rightarrow> string option" where
  "find_close [] = None"
| "find_close (c # cs) =
     (if c = CHR ''}'' \<and> take 1 cs = ''}'' then Some []
      else (case find_close cs of None \<Rightarrow> None | Some e \<Rightarrow> Some (c # e)))"

function segments :: "string \<Rightarrow> error + segment list" where
  "segments [] = Inr []"
| "segments (c # cs) =
     (if take 3 (c # cs) = ''${{'' then
        (case find_close (drop 2 cs) of
           None \<Rightarrow> Inl (TemplateError ''expected variable end'')
         | Some e \<Rightarrow>
             (case segments (drop (length e + 4) cs) of
                Inl err \<Rightarrow> Inl err
              | Inr ss \<Rightarrow> Inr (Var e # ss)))
      else if take 2 (c # cs) = ''{%'' \<or> take 2 (c # cs) = ''{#'' then
        Inl (TemplateError ''unsupported tag'')
      else
        (case segments cs of
           Inl err \<Rightarrow> Inl err
         | Inr (Data d # ss) \<Rightarrow> Inr (Data (c # d) # ss)
         | Inr ss \<Rightarrow> Inr (Data [c] # ss)))"
  by pat_completeness auto
termination
  by (relation "measure length") auto

fun segment_node :: "segment \<Rightarrow> error + nj_node" where
  "segment_node (Data d) = Inr (Node False (Some [Node True None]))"
| "segment_node (Var e) =
     (case parse_expression e of
        Inl err \<Rightarrow> Inl err
      | Inr x \<Rightarrow> Inr (Node False (Some [Node False None])))"

fun collect :: "(error + 'a) list \<Rightarrow> error + 'a list" where
  "collect [] = Inr []"
| "collect (Inl e # xs) = Inl e"
| "collect (Inr x # xs) = (case collect xs of Inl e \<Rightarrow> Inl e | Inr ys \<Rightarrow> Inr (x # ys))"

definition mini_parse :: "string \<Rightarrow> error + nj_node list" where
  "mini_parse s =
     (case segments s of Inl e \<Rightarrow> Inl e | Inr ss \<Rightarrow> collect (map segment_node ss))"

fun js_to_string :: "json \<Rightarrow> string" where
  "js_to_string JNull = ''null''"
| "js_to_string (JBool b) = (if b then ''true'' else ''false'')"
| "js_to_string (JNum n) = int_text n"
| "js_to_string (JStr s) = s"
| "js_to_string (JArr xs) =
     join '','' (map (\<lambda>x. case x of None \<Rightarrow> [] | Some v \<Rightarrow> if v = JNull then [] else js_to_string v) xs)"
| "js_to_string (JObj kvs) = ''[object Object]''"

fun suppress_value :: "json option \<Rightarrow> string" where
  "suppress_value None = []"
| "suppress_value (Some JNull) = []"
| "suppress_value (Some v) = js_to_string v"

fun eval :: "(string \<times> json) list \<Rightarrow> expr \<Rightarrow> error + json option" where
  "eval env (Sym x) = Inr (map_of env x)"
| "eval env (Lookup e k) =
     (case eval env e of
        Inl err \<Rightarrow> Inl err
      | Inr (Some (JObj kvs)) \<Rightarrow> Inr (map_of kvs k)
      | Inr _ \<Rightarrow> Inr None)"
| "eval env (Group e) = eval env e"
| "eval env (Filter f e) =
     (if f = ''dump'' then
        (case eval env e of
           Inl err \<Rightarrow> Inl err
         | Inr None \<Rightarrow> Inr None
         | Inr (Some v) \<Rightarrow> Inr (Some (JStr (json_stringify v))))
      else Inl (TemplateError (''filter not found: '' @ f)))"

fun json_clone :: "json \<Rightarrow> json" where
  "json_clone (JArr xs) = JArr (map (\<lambda>x. case x of None \<Rightarrow> Some JNull | Some v \<Rightarrow> Some (json_clone v)) xs)"
| "json_clone (JObj kvs) = JObj (map (\<lambda>(k, v). (k, json_clone v)) kvs)"
| "json_clone v = v"

definition context_bindings :: "template_context \<Rightarrow> (string \<times> json) list" where
  "context_bindings ctx =
     [(''parameters'', json_clone (ctx_parameters ctx)),
      (''steps'', JObj (map (\<lambda>(sid, out). (sid, JObj [(''output'', json_clone out)])) (ctx_steps ctx)))]
     @ (case ctx_secrets ctx of
          None \<Rightarrow> []
        | Some sec \<Rightarrow> [(''secrets'', JObj (map (\<lambda>(k, v). (k, JStr v)) sec))])
     @ (case ctx_user ctx of None \<Rightarrow> [] | Some u \<Rightarrow> [(''user'', json_clone u)])"

fun render_segment :: "(string \<times> json) list \<Rightarrow> segment \<Rightarrow> error + string" where
  "render_segment env (Data d) = Inr d"
| "render_segment env (Var e) =
     (case parse_expression e of
        Inl err \<Rightarrow> Inl err
      | Inr x \<Rightarrow> (case eval env x of Inl err \<Rightarrow> Inl err | Inr v \<Rightarrow> Inr (suppress_value v)))"

definition mini_render :: "string \<Rightarrow> template_context \<Rightarrow> error + string" where
  "mini_render s ctx =
     (case segments s of
        Inl e \<Rightarrow> Inl e
      | Inr ss \<Rightarrow>
          (case collect (map (render_segment (context_bindings ctx)) ss) of
             Inl e \<Rightarrow> Inl e
           | Inr parts \<Rightarrow> Inr (concat parts)))"

definition mini :: engine where
  "mini =
     \<lparr>nj_parse = mini_parse, renderTemplate = mini_render,
      JSON_parse = (\<lambda>t. case json_parse t of Some r \<Rightarrow> r | None \<Rightarrow> Inl (SyntaxError t))\<rparr>"


subsection \<open>Paths, leaves and well-formed values\<close>

text \<open>
  A position in a value: the keys and indices from the root. \<open>lookup_path\<close> reads the
  value there; \<open>None\<close> is \<^verbatim>\<open>undefined\<close>: a missing property, an index out of range, or a
  hole.
\<close>

datatype path_elem = Key string | Index nat

fun lookup_path :: "json option \<Rightarrow> path_elem list \<Rightarrow> json option" where
  "lookup_path v [] = v"
| "lookup_path (Some (JObj kvs)) (Key k # p) = lookup_path (map_of kvs k) p"
| "lookup_path (Some (JArr xs)) (Index i # p) =
     (if i < length xs then lookup_path (xs ! i) p else None)"
| "lookup_path v (e # p) = None"


text \<open>A value as \<^verbatim>\<open>JSON.parse\<close> produces it has no hole.\<close>

fun no_holes :: "json \<Rightarrow> bool" where
  "no_holes (JArr xs) = (\<forall>x \<in> set xs. case x of None \<Rightarrow> False | Some v \<Rightarrow> no_holes v)"
| "no_holes (JObj kvs) = (\<forall>(k, v) \<in> set kvs. no_holes v)"
| "no_holes v = True"

fun string_leaves :: "json \<Rightarrow> string list" where
  "string_leaves (JStr s) = [s]"
| "string_leaves (JArr xs) =
     concat (map (\<lambda>x. case x of None \<Rightarrow> [] | Some v \<Rightarrow> string_leaves v) xs)"
| "string_leaves (JObj kvs) = concat (map (\<lambda>(k, v). string_leaves v) kvs)"
| "string_leaves v = []"


text \<open>
  A string without a template expression, as the engine sees it: it is not classified
  as a single expression, and it renders to itself.
\<close>

definition expression_free :: "engine \<Rightarrow> template_context \<Rightarrow> string \<Rightarrow> bool" where
  "expression_free E ctx s =
     (isSingleTemplateString E s = Inr False \<and> renderTemplate E s ctx = Inr s)"

fun is_handler_event :: "event \<Rightarrow> bool" where
  "is_handler_event (HandlerInvoked sid args) = True"
| "is_handler_event e = False"

fun is_registry_event :: "event \<Rightarrow> bool" where
  "is_registry_event (RegistryGet a) = True"
| "is_registry_event e = False"

text \<open>
  The secrets-isolation property of one event: a rendering of a step's input has the
  secrets of the task in its context, every other rendering has no secrets field.
\<close>

fun secrets_isolated :: "task \<Rightarrow> event \<Rightarrow> bool" where
  "secrets_isolated T (Rendered InputSite v ctx) = (ctx_secrets ctx = Some (secrets_or_empty T))"
| "secrets_isolated T (Rendered site v ctx) = (ctx_secrets ctx = None)"
| "secrets_isolated T e = True"

text \<open>Whether the rendered input passes the validation of lines 258 to 269.\<close>

definition input_valid :: "runner \<Rightarrow> task \<Rightarrow> template_context \<Rightarrow> step \<Rightarrow> action \<Rightarrow> bool" where
  "input_valid R T ctx s a =
     (case schema_input a of
        None \<Rightarrow> True
      | Some sch \<Rightarrow> validateJsonSchema R (fst (render_input R T ctx s)) sch = [])"

subsection \<open>Examples\<close>

text \<open>The context of the spec's example: the parameters are \<^verbatim>\<open>{count: 3}\<close>.\<close>

definition count_context :: template_context where
  "count_context =
     \<lparr>ctx_parameters = JObj [(''count'', JNum 3)], ctx_steps = [], ctx_secrets = None,
      ctx_user = None\<rparr>"


text \<open>
  A runner with three registered actions over the engine \<open>mini\<close>: \<^verbatim>\<open>greet\<close> and
  \<^verbatim>\<open>echo\<close> record their input as an output and ask for one temporary directory, and
  \<^verbatim>\<open>greet\<close> declares schemas; \<^verbatim>\<open>fail\<close> throws. None declares dry-run support. The validator accepts an input against the schema
  \<^verbatim>\<open>{"type": "object"}\<close> when it is an object, and knows no other schema.
\<close>

definition greet_action :: action where
  "greet_action =
     \<lparr>action_id = ''greet'', supportsDryRun = False,
      schema_input = Some (JObj [(''type'', JStr ''object'')]),
      schema_output = Some (JObj [(''type'', JStr ''object'')]),
      handler = (\<lambda>args. \<lparr>hr_thrown = None, hr_output = [(''seen'', ha_input args)],
                             hr_tmp = [''x1'']\<rparr>)\<rparr>"

definition echo_action :: action where
  "echo_action =
     \<lparr>action_id = ''echo'', supportsDryRun = False, schema_input = None, schema_output = None,
      handler = (\<lambda>args. \<lparr>hr_thrown = None, hr_output = [(''seen'', ha_input args)],
                             hr_tmp = [''x1'']\<rparr>)\<rparr>"

definition fail_action :: action where
  "fail_action =
     \<lparr>action_id = ''fail'', supportsDryRun = False, schema_input = None, schema_output = None,
      handler = (\<lambda>args. \<lparr>hr_thrown = Some (ActionError ''boom''), hr_output = [],
                             hr_tmp = []\<rparr>)\<rparr>"

definition example_validate :: "json \<Rightarrow> json \<Rightarrow> string list" where
  "example_validate v sch =
     (case v of JObj kvs \<Rightarrow> [] | _ \<Rightarrow> [''instance is not of a type(s) object''])"

definition example_runner :: runner where
  "example_runner =
     \<lparr>workingDirectory = ''/tmp'',
      actionRegistry = (\<lambda>a. if a = ''greet'' then Some greet_action
                             else if a = ''echo'' then Some echo_action
                             else if a = ''fail'' then Some fail_action else None),
      templater = mini,
      validateJsonSchema = example_validate,
      generateExampleOutput = (\<lambda>sch. JObj [(''example'', sch)])\<rparr>"

definition example_step :: "string \<Rightarrow> string \<Rightarrow> json option \<Rightarrow> json option \<Rightarrow> step" where
  "example_step sid act inp cond =
     \<lparr>step_id = sid, step_name = sid, step_action = act, step_input = inp, step_if = cond\<rparr>"

definition example_task :: "step list \<Rightarrow> bool \<Rightarrow> task" where
  "example_task ss dry =
     \<lparr>apiVersion = ''scaffolder.backstage.io/v1beta3'', spec_steps = ss,
      spec_parameters = JObj [(''count'', JNum 3), (''name'', JStr [])],
      spec_output = JObj [(''seen'', JStr ''${{ steps.a.output.seen }}'')],
      spec_user = None, spec_templateInfo = None,
      task_secrets = Some [(''token'', ''s3cret'')], isDryRun = dry, workspaceName = ''ws''\<rparr>"


text \<open>
  The task of the spec's failure scenario: \<^verbatim>\<open>a\<close> succeeds, \<^verbatim>\<open>b\<close> fails, \<^verbatim>\<open>c\<close> is declared
  after it. Step \<^verbatim>\<open>a\<close> has a condition and an input that reads a secret.
\<close>

definition step_a :: step where
  "step_a =
     example_step ''a'' ''greet''
       (Some (JObj [(''who'', JStr ''${{ parameters.count }}''),
                    (''token'', JStr ''${{ secrets.token }}'')]))
       (Some (JStr ''${{ parameters.count }}''))"

definition step_b :: step where
  "step_b = example_step ''b'' ''fail'' None None"

definition step_c :: step where
  "step_c = example_step ''c'' ''greet'' None None"

definition abc_task :: task where
  "abc_task = example_task [step_a, step_b, step_c] False"


text \<open>A dry run of one step with a condition that holds.\<close>

definition dry_step :: step where
  "dry_step = example_step ''a'' ''greet'' None (Some (JStr ''${{ parameters.count }}''))"

definition dry_task :: task where
  "dry_task = example_task [dry_step] True"




text \<open>
  Steps whose condition is the literal \<^verbatim>\<open>false\<close>: with a registered action, and with an
  action that is not registered.
\<close>

definition false_step :: step where
  "false_step = example_step ''a'' ''echo'' None (Some (JBool False))"

definition false_task :: task where
  "false_task = example_task [false_step] False"

definition false_unregistered_step :: step where
  "false_unregistered_step = example_step ''a'' ''missing'' None (Some (JBool False))"

definition false_unregistered_task :: task where
  "false_unregistered_task = example_task [false_unregistered_step] False"

section \<open>Properties of the JSON text\<close>
























lemma number_end_delims [simp]:
  "number_end (CHR '','' # r)" "number_end (CHR '']'' # r)" "number_end (CHR ''}'' # r)"
  "number_end []"
  by (simp_all add: number_end_def is_digit_def)











section \<open>Properties of render\<close>

subsection \<open>The walk over the value\<close>


lemma lookup_path_None [simp]: "lookup_path None p = None"
  by (cases p) auto




lemma keep_defined_unchanged:
  "\<forall>(k, v) \<in> set kvs. f v = Some v \<Longrightarrow> keep_defined (map (\<lambda>(k, v). (k, f v)) kvs) = kvs"
  by (induction kvs) auto

lemma internalize_unchanged:
  "no_holes input \<Longrightarrow> \<forall>s \<in> set (string_leaves input). r s = Some (JStr s) \<Longrightarrow>
   internalize r input = Some input"
proof (induction r input rule: internalize.induct)
  case (1 r s)
  then show ?case by simp
next
  case (2 r xs)
  have "map (\<lambda>x. case x of None \<Rightarrow> Some JNull | Some v \<Rightarrow> internalize r v) xs = xs"
  proof (rule map_idI)
    fix x assume x: "x \<in> set xs"
    with "2.prems"(1) obtain v where v: "x = Some v" and nh: "no_holes v"
      by (cases x) auto
    have "\<forall>s \<in> set (string_leaves v). r s = Some (JStr s)"
      using "2.prems"(2) x v by force
    with "2.IH" [OF x v nh] show "(case x of None \<Rightarrow> Some JNull | Some v \<Rightarrow> internalize r v) = x"
      using v by simp
  qed
  then show ?case by simp
next
  case (3 r kvs)
  have "\<forall>(k, v) \<in> set kvs. internalize r v = Some v"
  proof (clarify)
    fix k v assume kv: "(k, v) \<in> set kvs"
    have nh: "no_holes v" using "3.prems"(1) kv by auto
    have "\<forall>s \<in> set (string_leaves v). r s = Some (JStr s)"
      using "3.prems"(2) kv by force
    with "3.IH" [OF kv refl nh] show "internalize r v = Some v" by simp
  qed
  then show ?case by (simp add: keep_defined_unchanged)
qed simp_all

subsection \<open>The reviver on a string\<close>



lemma render_string_free:
  "expression_free E ctx s \<Longrightarrow> s \<noteq> [] \<Longrightarrow> render_string E ctx s = Some (JStr s)"
  by (simp add: expression_free_def render_string_def render_plain_def)

subsection \<open>The rewriting\<close>




subsection \<open>Whole expressions keep their type\<close>




subsection \<open>Empty renderings are dropped\<close>




subsection \<open>Values without expressions\<close>

text \<open>
  Claim C8, as stated, fails on an empty string: it has no template expression, its
  rendering is the empty string, and the leaf is dropped. Here the property \<^verbatim>\<open>a\<close> is
  gone from the output.
\<close>

theorem render_expression_free_counterexample:
  "no_holes (JObj [(''a'', JStr [])])
   \<and> list_all (expression_free mini count_context) (string_leaves (JObj [(''a'', JStr [])]))
   \<and> render mini (JObj [(''a'', JStr [])]) count_context = Some (JObj [])
   \<and> render mini (JObj [(''a'', JStr [])]) count_context \<noteq> Some (JObj [(''a'', JStr [])])"
  by code_simp

text \<open>
  Claim C8, amended. A value whose string leaves are not empty and contain no template
  expression is rendered to itself: the leaves that are not strings, the order of the
  arrays and the properties of the objects are those of the input.
\<close>

theorem render_expression_free:
  "no_holes input \<Longrightarrow>
   list_all (\<lambda>s. s \<noteq> [] \<and> expression_free E ctx s) (string_leaves input) \<Longrightarrow>
   render E input ctx = Some input"
  unfolding render_def
  by (rule internalize_unchanged) (auto simp: list_all_iff render_string_free)

theorem render_expression_free_witness:
  "no_holes (JObj [(''a'', JStr ''text''), (''b'', JArr [Some (JNum 1), Some JNull])])
   \<and> list_all (\<lambda>s. s \<noteq> [] \<and> expression_free mini count_context s)
        (string_leaves (JObj [(''a'', JStr ''text''), (''b'', JArr [Some (JNum 1), Some JNull])]))
   \<and> render mini (JObj [(''a'', JStr ''text''), (''b'', JArr [Some (JNum 1), Some JNull])])
        count_context
      = Some (JObj [(''a'', JStr ''text''), (''b'', JArr [Some (JNum 1), Some JNull])])"
proof -
  let ?input = "JObj [(''a'', JStr ''text''), (''b'', JArr [Some (JNum 1), Some JNull])]"
  have h1: "no_holes ?input" by code_simp
  have h2: "list_all (\<lambda>s. s \<noteq> [] \<and> expression_free mini count_context s) (string_leaves ?input)"
    by code_simp
  from render_expression_free [OF h1 h2] h1 h2 show ?thesis by blast
qed

section \<open>Properties of execute\<close>

subsection \<open>Skipped steps\<close>

text \<open>
  A step whose condition is rendered and coerced to false leaves the context as it
  is; its only events are the rendering and the record of the skip.
\<close>

lemma step_body_skipped:
  "step_if s = Some c \<Longrightarrow> js_truthy c \<Longrightarrow> \<not> isTruthy (render (templater R) c ctx) \<Longrightarrow>
   step_body R T ws ctx s = (Inr ctx, [Rendered IfSite c ctx, StepSkippedFalsy (step_id s)])"
  by (simp add: step_body_def check_if_def)

subsection \<open>Secrets\<close>

lemma set_step_output_secrets [simp]:
  "ctx_secrets (set_step_output sid v ctx) = ctx_secrets ctx"
  by (simp add: set_step_output_def)

lemma check_if_isolated:
  "ctx_secrets ctx = None \<Longrightarrow> list_all (secrets_isolated T) (snd (check_if R ctx s))"
  by (auto simp: check_if_def split: option.splits)

lemma render_input_isolated:
  "list_all (secrets_isolated T) (snd (render_input R T ctx s))"
  by (auto simp: render_input_def input_context_def split: option.splits)

lemma secrets_isolated_tmp [simp]:
  "list_all (secrets_isolated T) (map (TempDirCreated \<circ> f) xs)"
  "list_all (secrets_isolated T) (map (TempDirRemoved \<circ> f) xs)"
  "list_all (secrets_isolated T) (map TempDirCreated ys)"
  "list_all (secrets_isolated T) (map TempDirRemoved ys)"
  by (simp_all add: list_all_iff)

lemma invoke_action_isolated:
  "invoke_action R T ws ctx s a = (r, evs) \<Longrightarrow>
   list_all (secrets_isolated T) evs \<and> (\<forall>ctx'. r = Inr ctx' \<longrightarrow> ctx_secrets ctx' = ctx_secrets ctx)"
  using render_input_isolated [of T R ctx s]
  by (auto simp: invoke_action_def Let_def split: prod.splits option.splits if_splits)

lemma step_body_isolated:
  assumes "ctx_secrets ctx = None" and "step_body R T ws ctx s = (r, evs)"
  shows "list_all (secrets_isolated T) evs \<and> (\<forall>ctx'. r = Inr ctx' \<longrightarrow> ctx_secrets ctx' = None)"
proof -
  obtain go evs0 where c: "check_if R ctx s = (go, evs0)" by (cases "check_if R ctx s")
  have i0: "list_all (secrets_isolated T) evs0"
    using check_if_isolated [OF assms(1), of T R s] c by simp
  show ?thesis
  proof (cases go)
    case False
    with assms c i0 show ?thesis by (auto simp: step_body_def)
  next
    case True
    show ?thesis
    proof (cases "actionRegistry R (step_action s)")
      case None
      with assms c i0 True show ?thesis by (auto simp: step_body_def)
    next
      case (Some a)
      show ?thesis
      proof (cases "isDryRun T \<and> \<not> supportsDryRun a")
        case True
        with assms c i0 \<open>go\<close> Some show ?thesis by (auto simp: step_body_def)
      next
        case False
        obtain r' evs' where inv: "invoke_action R T ws ctx s a = (r', evs')"
          by (cases "invoke_action R T ws ctx s a")
        from invoke_action_isolated [OF inv] assms c i0 \<open>go\<close> Some False inv
        show ?thesis by (auto simp: step_body_def)
      qed
    qed
  qed
qed

lemma run_step_isolated:
  assumes "ctx_secrets ctx = None" and "run_step R T ws ctx s = (r, evs)"
  shows "list_all (secrets_isolated T) evs \<and> (\<forall>ctx'. r = Inr ctx' \<longrightarrow> ctx_secrets ctx' = None)"
proof -
  obtain r0 evs0 where b: "step_body R T ws ctx s = (r0, evs0)" by (cases "step_body R T ws ctx s")
  from step_body_isolated [OF assms(1) b] assms(2) b show ?thesis
    by (auto simp: run_step_def split: sum.splits)
qed

lemma run_steps_isolated:
  "ctx_secrets ctx = None \<Longrightarrow> run_steps R T ws ctx ss = (r, evs) \<Longrightarrow>
   list_all (secrets_isolated T) evs \<and> (\<forall>ctx'. r = Inr ctx' \<longrightarrow> ctx_secrets ctx' = None)"
proof (induction ss arbitrary: ctx r evs)
  case Nil
  then show ?case by auto
next
  case (Cons s ss)
  obtain r1 evs1 where st: "run_step R T ws ctx s = (r1, evs1)" by (cases "run_step R T ws ctx s")
  note one = run_step_isolated [OF Cons.prems(1) st]
  show ?case
  proof (cases r1)
    case (Inl e)
    with Cons.prems st one show ?thesis by auto
  next
    case (Inr ctx1)
    obtain r2 evs2 where rest: "run_steps R T ws ctx1 ss = (r2, evs2)"
      by (cases "run_steps R T ws ctx1 ss")
    from one Inr have s1: "ctx_secrets ctx1 = None" by simp
    from Cons.IH [OF s1 rest] Cons.prems(2) st Inr rest one show ?thesis by auto
  qed
qed

text \<open>
  Claim C3. In every run of \<^verbatim>\<open>execute\<close>, each rendering of a step's condition and the
  rendering of the task's output have a context without the secrets field, and each
  rendering of a step's input has the secrets of the task (the empty mapping when the
  task has none) in its context.
\<close>

theorem secrets_isolation:
  "list_all (secrets_isolated T) (snd (execute R T))"
proof -
  let ?ws = "workspacePath R T"
  obtain r evs where run: "run_steps R T ?ws (initial_context T) (spec_steps T) = (r, evs)"
    by (cases "run_steps R T ?ws (initial_context T) (spec_steps T)")
  have "ctx_secrets (initial_context T) = None" by (simp add: initial_context_def)
  from run_steps_isolated [OF this run] run show ?thesis
    by (auto simp: execute_def Let_def split: sum.splits)
qed

theorem secrets_isolation_witness:
  "list_all (secrets_isolated abc_task) (snd (execute example_runner abc_task))
   \<and> Rendered InputSite
        (JObj [(''who'', JStr ''${{ parameters.count }}''),
               (''token'', JStr ''${{ secrets.token }}'')])
        \<lparr>ctx_parameters = JObj [(''count'', JNum 3), (''name'', JStr [])], ctx_steps = [],
         ctx_secrets = Some [(''token'', ''s3cret'')], ctx_user = None\<rparr>
       \<in> set (snd (execute example_runner abc_task))
   \<and> Rendered IfSite (JStr ''${{ parameters.count }}'')
        \<lparr>ctx_parameters = JObj [(''count'', JNum 3), (''name'', JStr [])], ctx_steps = [],
         ctx_secrets = None, ctx_user = None\<rparr>
       \<in> set (snd (execute example_runner abc_task))"
proof -
  have e1: "Rendered InputSite
        (JObj [(''who'', JStr ''${{ parameters.count }}''),
               (''token'', JStr ''${{ secrets.token }}'')])
        \<lparr>ctx_parameters = JObj [(''count'', JNum 3), (''name'', JStr [])], ctx_steps = [],
         ctx_secrets = Some [(''token'', ''s3cret'')], ctx_user = None\<rparr>
       \<in> set (snd (execute example_runner abc_task))"
    by code_simp
  have e2: "Rendered IfSite (JStr ''${{ parameters.count }}'')
        \<lparr>ctx_parameters = JObj [(''count'', JNum 3), (''name'', JStr [])], ctx_steps = [],
         ctx_secrets = None, ctx_user = None\<rparr>
       \<in> set (snd (execute example_runner abc_task))"
    by code_simp
  from secrets_isolation [of abc_task example_runner] e1 e2 show ?thesis by blast
qed

subsection \<open>Failure of a step\<close>

lemma run_steps_append:
  "run_steps R T ws ctx (pre @ post) =
     (case run_steps R T ws ctx pre of
        (Inl e, evs) \<Rightarrow> (Inl e, evs)
      | (Inr ctx', evs) \<Rightarrow>
          (case run_steps R T ws ctx' post of (r, evs') \<Rightarrow> (r, evs @ evs')))"
  by (induction pre arbitrary: ctx) (auto split: prod.splits sum.splits)

lemma removed_last: "ws \<notin> dirs_after (evs @ [Removed ws]) D"
  by (simp add: dirs_after_def remove_dir_def)

lemma step_body_failure_cases:
  assumes "step_body R T ws ctx s = (Inl err, evs)"
  shows "(actionRegistry R (step_action s) = None \<and> err = NotFoundError (step_action s))
       \<or> (\<exists>a. actionRegistry R (step_action s) = Some a \<and> \<not> input_valid R T ctx s a
               \<and> (\<exists>msg. err = InputError msg))
       \<or> (\<exists>a. actionRegistry R (step_action s) = Some a \<and> input_valid R T ctx s a
               \<and> hr_thrown (handler a \<lparr>ha_input = fst (render_input R T ctx s),
                                        ha_secrets = secrets_or_empty T,
                                        ha_workspacePath = ws,
                                        ha_templateInfo = spec_templateInfo T\<rparr>) = Some err)"
  using assms
  by (auto simp: step_body_def invoke_action_def input_valid_def Let_def
           split: prod.splits option.splits if_splits bool.splits)

text \<open>
  Claim C4. When the steps before \<open>s\<close> succeed and \<open>s\<close> fails (its action is not
  registered, its rendered input fails the validation, or its handler throws: the three
  cases of \<open>step_body_failure_cases\<close>), \<^verbatim>\<open>execute\<close> throws the error of \<open>s\<close>; the events of
  the run are those of the steps up to \<open>s\<close>, the two failure records and the removal of
  the workspace, so the handlers invoked are those of the steps up to \<open>s\<close> and none of a
  later step; and the workspace directory does not exist afterwards.
\<close>

theorem fail_fast:
  assumes "apiVersion T = ''scaffolder.backstage.io/v1beta3''"
    and "spec_steps T = pre @ s # post"
    and "run_steps R T (workspacePath R T) (initial_context T) pre = (Inr ctx, evs1)"
    and "step_body R T (workspacePath R T) ctx s = (Inl err, evs2)"
  shows "execute R T =
           (Inl err,
            [TaskStarted (length (spec_steps T)), EnsureDir (workspacePath R T)] @ evs1
              @ [StepStarted (step_id s)] @ evs2
              @ [TaskFailed (step_id s) err, StepFailed (step_id s), Removed (workspacePath R T)])
         \<and> filter is_handler_event (snd (execute R T)) = filter is_handler_event (evs1 @ evs2)
         \<and> workspacePath R T \<notin> dirs_after (snd (execute R T)) D"
proof -
  let ?ws = "workspacePath R T"
  have step: "run_step R T ?ws ctx s =
      (Inl err, StepStarted (step_id s) # evs2 @ [TaskFailed (step_id s) err, StepFailed (step_id s)])"
    using assms(4) by (simp add: run_step_def)
  have run: "run_steps R T ?ws (initial_context T) (spec_steps T) =
      (Inl err, evs1 @ StepStarted (step_id s) # evs2
                  @ [TaskFailed (step_id s) err, StepFailed (step_id s)])"
    using assms(2,3) step by (simp add: run_steps_append)
  have ex: "execute R T =
           (Inl err,
            [TaskStarted (length (spec_steps T)), EnsureDir ?ws] @ evs1
              @ [StepStarted (step_id s)] @ evs2
              @ [TaskFailed (step_id s) err, StepFailed (step_id s), Removed ?ws])"
    using assms(1) run by (simp add: execute_def Let_def)
  have rm: "?ws \<notin> dirs_after (snd (execute R T)) D"
    using removed_last [of ?ws "[TaskStarted (length (spec_steps T)), EnsureDir ?ws] @ evs1
              @ [StepStarted (step_id s)] @ evs2
              @ [TaskFailed (step_id s) err, StepFailed (step_id s)]" D]
    by (simp add: ex)
  show ?thesis using ex rm by simp
qed

theorem fail_fast_witness:
  "apiVersion abc_task = ''scaffolder.backstage.io/v1beta3''
   \<and> spec_steps abc_task = [step_a] @ step_b # [step_c]
   \<and> fst (execute example_runner abc_task) = Inl (ActionError ''boom'')
   \<and> filter is_handler_event (snd (execute example_runner abc_task))
       = [HandlerInvoked ''a''
            \<lparr>ha_input = JObj [(''who'', JNum 3), (''token'', JStr ''s3cret'')],
             ha_secrets = [(''token'', ''s3cret'')], ha_workspacePath = ''/tmp/ws'',
             ha_templateInfo = None\<rparr>,
          HandlerInvoked ''b''
            \<lparr>ha_input = JObj [], ha_secrets = [(''token'', ''s3cret'')],
             ha_workspacePath = ''/tmp/ws'', ha_templateInfo = None\<rparr>]
   \<and> ''/tmp/ws'' \<notin> dirs_after (snd (execute example_runner abc_task)) {''/tmp/ws''}"
proof -
  let ?ws = "workspacePath example_runner abc_task"
  let ?pre = "run_steps example_runner abc_task ?ws (initial_context abc_task) [step_a]"
  let ?ctx = "projr (fst ?pre)"
  let ?body = "step_body example_runner abc_task ?ws ?ctx step_b"
  have h1: "apiVersion abc_task = ''scaffolder.backstage.io/v1beta3''" by code_simp
  have h2: "spec_steps abc_task = [step_a] @ step_b # [step_c]" by code_simp
  have h3: "?pre = (Inr ?ctx, snd ?pre)" by code_simp
  have h4: "?body = (Inl (ActionError ''boom''), snd ?body)" by code_simp
  have ws: "?ws = ''/tmp/ws''" by code_simp
  have hs: "filter is_handler_event (snd ?pre @ snd ?body)
       = [HandlerInvoked ''a''
            \<lparr>ha_input = JObj [(''who'', JNum 3), (''token'', JStr ''s3cret'')],
             ha_secrets = [(''token'', ''s3cret'')], ha_workspacePath = ''/tmp/ws'',
             ha_templateInfo = None\<rparr>,
          HandlerInvoked ''b''
            \<lparr>ha_input = JObj [], ha_secrets = [(''token'', ''s3cret'')],
             ha_workspacePath = ''/tmp/ws'', ha_templateInfo = None\<rparr>]"
    by code_simp
  note ff = fail_fast [OF h1 h2 h3 h4, of "{''/tmp/ws''}"]
  have c1: "fst (execute example_runner abc_task) = Inl (ActionError ''boom'')"
    using conjunct1 [OF ff] by (simp only: fst_conv)
  have c2: "filter is_handler_event (snd (execute example_runner abc_task))
              = filter is_handler_event (snd ?pre @ snd ?body)"
    using ff by blast
  have "?ws \<notin> dirs_after (snd (execute example_runner abc_task)) {''/tmp/ws''}"
    using ff by blast
  then have c3: "''/tmp/ws'' \<notin> dirs_after (snd (execute example_runner abc_task)) {''/tmp/ws''}"
    unfolding ws .
  have c2': "filter is_handler_event (snd (execute example_runner abc_task))
       = [HandlerInvoked ''a''
            \<lparr>ha_input = JObj [(''who'', JNum 3), (''token'', JStr ''s3cret'')],
             ha_secrets = [(''token'', ''s3cret'')], ha_workspacePath = ''/tmp/ws'',
             ha_templateInfo = None\<rparr>,
          HandlerInvoked ''b''
            \<lparr>ha_input = JObj [], ha_secrets = [(''token'', ''s3cret'')],
             ha_workspacePath = ''/tmp/ws'', ha_templateInfo = None\<rparr>]"
    using c2 hs by (rule trans)
  show ?thesis using h1 h2 c1 c2' c3 by blast
qed

subsection \<open>Dry run\<close>

lemma check_if_no_handler: "filter is_handler_event (snd (check_if R ctx s)) = []"
  by (auto simp: check_if_def split: option.splits)

lemma check_if_no_registry: "filter is_registry_event (snd (check_if R ctx s)) = []"
  by (auto simp: check_if_def split: option.splits)

text \<open>
  Claim C6. In a dry run, a step that passes its condition and whose action does not
  declare dry-run support invokes no handler. The context gets, under the id of the
  step, the example that the generator makes from the output schema of the action when
  it declares one, and the empty object otherwise, and the loop goes on with the next
  step in that context. The generator is a parameter of the runner: the stored value
  is what it returns for the schema.
\<close>

theorem dry_run_skip:
  assumes "isDryRun T" and "fst (check_if R ctx s)"
    and "actionRegistry R (step_action s) = Some a" and "\<not> supportsDryRun a"
  shows "(\<exists>evs ctx'.
            run_step R T ws ctx s = (Inr ctx', evs)
          \<and> filter is_handler_event evs = []
          \<and> ctx' = set_step_output (step_id s)
                     (case schema_output a of
                        Some outputSchema \<Rightarrow> generateExampleOutput R outputSchema
                      | None \<Rightarrow> JObj []) ctx
          \<and> map_of (ctx_steps ctx') (step_id s)
              = Some (case schema_output a of
                        Some outputSchema \<Rightarrow> generateExampleOutput R outputSchema
                      | None \<Rightarrow> JObj [])
          \<and> run_steps R T ws ctx (s # rest)
              = (fst (run_steps R T ws ctx' rest), evs @ snd (run_steps R T ws ctx' rest)))"
proof -
  obtain evs0 where c: "check_if R ctx s = (True, evs0)"
    using assms(2) by (cases "check_if R ctx s") auto
  have nh: "filter is_handler_event evs0 = []"
    using check_if_no_handler [of R ctx s] c by simp
  let ?out = "case schema_output a of
                        Some outputSchema \<Rightarrow> generateExampleOutput R outputSchema
                      | None \<Rightarrow> JObj []"
  let ?ctx = "set_step_output (step_id s) ?out ctx"
  let ?evs = "StepStarted (step_id s) # evs0
                @ [RegistryGet (step_action s), StepSkippedDryRun (step_id s) (action_id a)]"
  have body: "run_step R T ws ctx s = (Inr ?ctx, ?evs)"
    using assms c by (simp add: run_step_def step_body_def dry_run_output_def)
  have look: "map_of (ctx_steps ?ctx) (step_id s) = Some ?out"
    by (simp add: set_step_output_def update_conv')
  have loop: "run_steps R T ws ctx (s # rest)
                = (fst (run_steps R T ws ?ctx rest), ?evs @ snd (run_steps R T ws ?ctx rest))"
    using body by (simp add: split_beta)
  show ?thesis using body nh look loop by (intro exI [of _ ?evs] exI [of _ ?ctx]) simp
qed

theorem dry_run_skip_witness:
  "isDryRun dry_task
   \<and> fst (check_if example_runner (initial_context dry_task) dry_step)
   \<and> actionRegistry example_runner (step_action dry_step) = Some greet_action
   \<and> \<not> supportsDryRun greet_action
   \<and> (\<exists>evs ctx'.
         run_step example_runner dry_task ''/tmp/ws'' (initial_context dry_task) dry_step
           = (Inr ctx', evs)
       \<and> filter is_handler_event evs = []
       \<and> map_of (ctx_steps ctx') ''a''
           = Some (JObj [(''example'', JObj [(''type'', JStr ''object'')])]))"
proof -
  have h1: "isDryRun dry_task" by code_simp
  have h2: "fst (check_if example_runner (initial_context dry_task) dry_step)" by code_simp
  have h3: "actionRegistry example_runner (step_action dry_step) = Some greet_action"
    by (simp add: example_runner_def dry_step_def example_step_def)
  have h4: "\<not> supportsDryRun greet_action" by code_simp
  have v: "(case schema_output greet_action of
              Some outputSchema \<Rightarrow> generateExampleOutput example_runner outputSchema
            | None \<Rightarrow> JObj [])
           = JObj [(''example'', JObj [(''type'', JStr ''object'')])]"
    by code_simp
  have i: "step_id dry_step = ''a''" by code_simp
  from dry_run_skip [OF h1 h2 h3 h4, of "''/tmp/ws''" "[]"] h1 h2 h3 h4
  show ?thesis unfolding v i by blast
qed

subsection \<open>When the handler runs\<close>

lemma render_input_no_handler: "filter is_handler_event (snd (render_input R T ctx s)) = []"
  by (auto simp: render_input_def split: option.splits)

lemma filter_handler_tmp [simp]:
  "filter is_handler_event (map (TempDirCreated \<circ> f) xs) = []"
  "filter is_handler_event (map (TempDirRemoved \<circ> f) xs) = []"
  "filter is_handler_event (map TempDirCreated ys) = []"
  "filter is_handler_event (map TempDirRemoved ys) = []"
  by (simp_all add: filter_empty_conv)

lemma invoke_action_handler_events:
  "filter is_handler_event (snd (invoke_action R T ws ctx s a)) =
     (if input_valid R T ctx s a
      then [HandlerInvoked (step_id s)
              \<lparr>ha_input = fst (render_input R T ctx s), ha_secrets = secrets_or_empty T,
               ha_workspacePath = ws, ha_templateInfo = spec_templateInfo T\<rparr>]
      else [])"
  using render_input_no_handler [of R T ctx s]
  by (auto simp: invoke_action_def input_valid_def Let_def
           split: prod.splits option.splits)

lemma step_body_handler_events:
  "filter is_handler_event (snd (step_body R T ws ctx s)) =
     (case actionRegistry R (step_action s) of
        None \<Rightarrow> []
      | Some a \<Rightarrow>
          if fst (check_if R ctx s) \<and> \<not> (isDryRun T \<and> \<not> supportsDryRun a)
             \<and> input_valid R T ctx s a
          then [HandlerInvoked (step_id s)
                  \<lparr>ha_input = fst (render_input R T ctx s), ha_secrets = secrets_or_empty T,
                   ha_workspacePath = ws, ha_templateInfo = spec_templateInfo T\<rparr>]
          else [])"
proof -
  obtain go evs0 where c: "check_if R ctx s = (go, evs0)" by (cases "check_if R ctx s")
  have nh: "filter is_handler_event evs0 = []"
    using check_if_no_handler [of R ctx s] c by simp
  show ?thesis
  proof (cases "actionRegistry R (step_action s)")
    case None
    then show ?thesis using c nh by (cases go) (simp_all add: step_body_def)
  next
    case (Some a)
    obtain r evs where inv: "invoke_action R T ws ctx s a = (r, evs)"
      by (cases "invoke_action R T ws ctx s a")
    have "filter is_handler_event evs =
            (if input_valid R T ctx s a
             then [HandlerInvoked (step_id s)
                     \<lparr>ha_input = fst (render_input R T ctx s), ha_secrets = secrets_or_empty T,
                      ha_workspacePath = ws, ha_templateInfo = spec_templateInfo T\<rparr>]
             else [])"
      using invoke_action_handler_events [of R T ws ctx s a] inv by simp
    then show ?thesis using Some c nh inv by (cases go) (simp_all add: step_body_def)
  qed
qed

text \<open>
  Claim C5, as stated, fails: a handler does not run whenever the condition is coerced
  to true. In this dry run the condition renders to 3, which is coerced to true, and
  no handler is invoked.
\<close>

theorem condition_coercion_counterexample:
  "step_if dry_step = Some (JStr ''${{ parameters.count }}'')
   \<and> render (templater example_runner) (JStr ''${{ parameters.count }}'')
         (initial_context dry_task) = Some (JNum 3)
   \<and> isTruthy (Some (JNum 3))
   \<and> filter is_handler_event
        (snd (execute example_runner dry_task)) = []"
  by code_simp

text \<open>
  Claim C5, amended. The coercion is false for an undefined value, \<^verbatim>\<open>null\<close>, \<^verbatim>\<open>false\<close>,
  zero, the empty string, the string \<^verbatim>\<open>"false"\<close>, the empty array and the empty object, and
  true for every other value. For a step whose condition is evaluated (\<^verbatim>\<open>step.if\<close> is
  truthy for JavaScript, line 218), the handler is invoked exactly when the coercion of
  the rendered condition is true, the action is registered, the dry-run skip does not
  apply and the rendered input is valid.
\<close>

theorem condition_coercion:
  "(isTruthy r \<longleftrightarrow>
      r \<notin> {None, Some JNull, Some (JBool False), Some (JNum 0), Some (JStr []),
            Some (JStr ''false''), Some (JArr []), Some (JObj [])})
   \<and> (step_if s = Some c \<and> js_truthy c \<longrightarrow>
        (filter is_handler_event (snd (step_body R T ws ctx s)) \<noteq> [] \<longleftrightarrow>
           isTruthy (render (templater R) c ctx)
           \<and> (\<exists>a. actionRegistry R (step_action s) = Some a
                  \<and> \<not> (isDryRun T \<and> \<not> supportsDryRun a)
                  \<and> input_valid R T ctx s a)))"
proof (intro conjI impI)
  show "isTruthy r \<longleftrightarrow>
      r \<notin> {None, Some JNull, Some (JBool False), Some (JNum 0), Some (JStr []),
            Some (JStr ''false''), Some (JArr []), Some (JObj [])}"
  proof (cases r)
    case None
    then show ?thesis by simp
  next
    case (Some v)
    then show ?thesis by (cases v) auto
  qed
next
  assume h: "step_if s = Some c \<and> js_truthy c"
  then have "fst (check_if R ctx s) = isTruthy (render (templater R) c ctx)"
    by (simp add: check_if_def)
  then show "filter is_handler_event (snd (step_body R T ws ctx s)) \<noteq> [] \<longleftrightarrow>
           isTruthy (render (templater R) c ctx)
           \<and> (\<exists>a. actionRegistry R (step_action s) = Some a
                  \<and> \<not> (isDryRun T \<and> \<not> supportsDryRun a)
                  \<and> input_valid R T ctx s a)"
    by (simp add: step_body_handler_events split: option.splits)
qed

theorem condition_coercion_witness:
  "step_if step_a = Some (JStr ''${{ parameters.count }}'')
   \<and> js_truthy (JStr ''${{ parameters.count }}'')
   \<and> isTruthy (render (templater example_runner) (JStr ''${{ parameters.count }}'')
                  (initial_context abc_task))
   \<and> actionRegistry example_runner (step_action step_a) = Some greet_action
   \<and> \<not> (isDryRun abc_task \<and> \<not> supportsDryRun greet_action)
   \<and> input_valid example_runner abc_task (initial_context abc_task) step_a greet_action
   \<and> filter is_handler_event
        (snd (step_body example_runner abc_task ''/tmp/ws'' (initial_context abc_task) step_a))
       \<noteq> []"
proof -
  have h1: "step_if step_a = Some (JStr ''${{ parameters.count }}'')" by code_simp
  have h2: "js_truthy (JStr ''${{ parameters.count }}'')" by code_simp
  have h3: "isTruthy (render (templater example_runner) (JStr ''${{ parameters.count }}'')
                  (initial_context abc_task))" by code_simp
  have h4: "actionRegistry example_runner (step_action step_a) = Some greet_action"
    by (simp add: example_runner_def step_a_def example_step_def)
  have h5: "\<not> (isDryRun abc_task \<and> \<not> supportsDryRun greet_action)" by code_simp
  have h6: "input_valid example_runner abc_task (initial_context abc_task) step_a greet_action"
    by code_simp
  from condition_coercion
    [of "Some (JNum 3)" step_a "JStr ''${{ parameters.count }}''" example_runner abc_task
        "''/tmp/ws''" "initial_context abc_task"]
    h1 h2 h3 h4 h5 h6
  show ?thesis by blast
qed

subsection \<open>The input of the handler\<close>





subsection \<open>A condition that is the literal false\<close>

text \<open>
  Claim C2. The code skips a step when the rendering of its condition is coerced to
  false (\<open>step_body_skipped\<close>), but line 218 tests \<^verbatim>\<open>step.if\<close> for truthiness before
  rendering it. A step with \<^verbatim>\<open>if: false\<close> is therefore executed: its condition renders to
  \<^verbatim>\<open>false\<close>, its handler is invoked, its output entry is created, and the output of the
  task reads the entry.
\<close>

theorem literal_false_condition_runs:
  "step_if false_step = Some (JBool False)
   \<and> render (templater example_runner) (JBool False) (initial_context false_task)
       = Some (JBool False)
   \<and> \<not> isTruthy (Some (JBool False))
   \<and> execute example_runner false_task =
       (Inr (Some (JObj [(''seen'', JObj [])])),
        [TaskStarted 1, EnsureDir ''/tmp/ws'', StepStarted ''a'', RegistryGet ''echo'',
         HandlerInvoked ''a''
           \<lparr>ha_input = JObj [], ha_secrets = [(''token'', ''s3cret'')],
            ha_workspacePath = ''/tmp/ws'', ha_templateInfo = None\<rparr>,
         TempDirCreated ''/tmp/ws_step-a-x1'', TempDirRemoved ''/tmp/ws_step-a-x1'',
         StepSucceeded ''a'',
         Rendered OutputSite (JObj [(''seen'', JStr ''${{ steps.a.output.seen }}'')])
           \<lparr>ctx_parameters = JObj [(''count'', JNum 3), (''name'', JStr [])],
            ctx_steps = [(''a'', JObj [(''seen'', JObj [])])],
            ctx_secrets = None, ctx_user = None\<rparr>,
         TaskSucceeded, Removed ''/tmp/ws''])"
  by code_simp

text \<open>
  Claim C9. For the same reason the registry is consulted for a step with
  \<^verbatim>\<open>if: false\<close>: when its action is not registered, the task fails with the resolution
  error although the condition of the step renders to \<^verbatim>\<open>false\<close>.
\<close>

theorem literal_false_condition_resolves:
  "step_if false_unregistered_step = Some (JBool False)
   \<and> render (templater example_runner) (JBool False) (initial_context false_unregistered_task)
       = Some (JBool False)
   \<and> \<not> isTruthy (Some (JBool False))
   \<and> execute example_runner false_unregistered_task =
       (Inl (NotFoundError ''missing''),
        [TaskStarted 1, EnsureDir ''/tmp/ws'', StepStarted ''a'', RegistryGet ''missing'',
         TaskFailed ''a'' (NotFoundError ''missing''), StepFailed ''a'', Removed ''/tmp/ws''])"
  by code_simp

end
